theory Spec2Isabelle
  imports Main
begin

section \<open>Workspace actions of the workbench\<close>

text \<open>
  A shallow embedding of \<^verbatim>\<open>src/vs/workbench/browser/actions/workspaceActions.ts\<close>.
  Every action class wraps one user command: its \<^verbatim>\<open>run\<close> method calls the services
  injected into its constructor and returns a promise. The services are collaborators, so
  the model takes them as parameters: a record per service interface, with one field per
  method the actions use. What an action does is then read off the list of events it
  emits, the state in which it leaves the rest of the workbench, and the fate of the
  promise it returns.
\<close>

subsection \<open>Values exchanged with the collaborators\<close>

type_synonym URI = string

text \<open>\<^verbatim>\<open>WorkbenchState\<close>, the enum the actions branch on.\<close>

datatype WorkbenchState = EMPTY | FOLDER | WORKSPACE

text \<open>
  \<^verbatim>\<open>IOpenSettings\<close> and \<^verbatim>\<open>IURIToOpen\<close>, the arguments of \<^verbatim>\<open>openWindow\<close>. An optional
  property is an option: \<open>None\<close> when the object literal does not set it. These two records
  come first, so that the field names \<open>uri\<close> and \<open>forceNewWindow\<close> without a qualifier
  are those of the folder and of the dialog options below.
\<close>

record IOpenSettings =
  forceNewWindow :: "bool option"

record IURIToOpen =
  uri :: URI
  typeHint :: "string option"

text \<open>
  The object literal \<^verbatim>\<open>{ uri: folder.uri }\<close> is a record with the single field \<open>uri\<close>.

  Modelled from the spec: the declaration of \<^verbatim>\<open>IWorkspaceFolder\<close> is imported from
  \<^verbatim>\<open>vs/platform/workspace/common/workspace\<close>. A workspace folder identifies one root
  folder by a location handle and carries other metadata, here a name and an index.
\<close>

record IWorkspaceFolderCreationData =
  uri :: URI

record IWorkspaceFolder = IWorkspaceFolderCreationData +
  name :: string
  index :: nat

text \<open>
  What \<^verbatim>\<open>getWorkspace()\<close> returns: the ordered folders and the location of the workspace
  file, \<^verbatim>\<open>null\<close> (here \<open>None\<close>) when there is none.
\<close>

record IWorkspace =
  folders :: "IWorkspaceFolder list"
  configuration :: "URI option"

text \<open>The options of the four dialog entry points; \<open>'d\<close> is the telemetry payload.\<close>

record 'd IPickAndOpenOptions =
  forceNewWindow :: "bool option"
  telemetryExtraData :: "'d option"

text \<open>The argument of \<^verbatim>\<open>openEditor\<close>, the object literal \<^verbatim>\<open>{ resource: configuration }\<close>.\<close>

record IResourceInput =
  resource :: URI

text \<open>What \<^verbatim>\<open>createUntitledWorkspace\<close> resolves to.\<close>

record IWorkspaceIdentifier =
  workspace_id :: string
  configPath :: URI

text \<open>What \<^verbatim>\<open>getConfiguration()\<close> of the window service returns.\<close>

record IWindowConfiguration =
  remoteAuthority :: "string option"

subsection \<open>Promises\<close>

datatype error = Error string

text \<open>
  The fate of a promise: it is fulfilled with a value, it is rejected with an error, or it
  never settles.
\<close>

datatype 'a Promise = Resolved 'a | Rejected error | Pending

subsection \<open>Events\<close>

text \<open>The calls an action can make on its collaborators, with their arguments.\<close>

datatype 'd call =
    PickFileAndOpen "'d IPickAndOpenOptions"
  | PickFolderAndOpen "'d IPickAndOpenOptions"
  | PickFileFolderAndOpen "'d IPickAndOpenOptions"
  | PickWorkspaceAndOpen "'d IPickAndOpenOptions"
  | ExecuteCommand string
  | RemoveFolders "URI list"
  | PickNewWorkspacePath
  | CreateAndEnterWorkspace "IWorkspaceFolderCreationData list" URI
  | SaveAndEnterWorkspace URI
  | CopyWorkspaceSettings IWorkspaceIdentifier
  | CreateUntitledWorkspace "IWorkspaceFolder list" "string option"
  | CloseWorkspace
  | OpenWindow "IURIToOpen list" IOpenSettings
  | OpenEditor IResourceInput
  | Info string

text \<open>
  An action issues a call; later the promise that the call returned is fulfilled or
  rejected. A promise that stays pending leaves no second event.
\<close>

datatype 'd event = Issued "'d call" | Fulfilled "'d call" | Failed "'d call" error

fun settled :: "'d call \<Rightarrow> 'a Promise \<Rightarrow> 'd event list" where
  "settled c (Resolved v) = [Fulfilled c]"
| "settled c (Rejected e) = [Failed c e]"
| "settled c Pending = []"

text \<open>The calls issued in a list of events, in order.\<close>

fun issued :: "'d event list \<Rightarrow> 'd call list" where
  "issued [] = []"
| "issued (Issued c # es) = c # issued es"
| "issued (Fulfilled c # es) = issued es"
| "issued (Failed c e # es) = issued es"

subsection \<open>Asynchronous computations\<close>

text \<open>
  \<open>'w\<close> is the state of the rest of the workbench, which the collaborators read and
  change. A computation starts in such a state and yields the fate of its promise, the
  state it leaves, and the events it emitted.
\<close>

type_synonym ('w, 'd, 'a) async = "'w \<Rightarrow> 'a Promise \<times> 'w \<times> 'd event list"

text \<open>\<^verbatim>\<open>Promise.resolve(v)\<close>, and a callback that returns the plain value \<open>v\<close>.\<close>

definition resolve :: "'a \<Rightarrow> ('w, 'd, 'a) async" where
  "resolve v = (\<lambda>w. (Resolved v, w, []))"

text \<open>
  \<^verbatim>\<open>p.then(f)\<close>: the callback runs once \<open>p\<close> is fulfilled, with its value, and the
  resulting promise follows the one the callback returns. When \<open>p\<close> is rejected the
  callback does not run and the rejection is passed on; when \<open>p\<close> never settles, neither
  does the result.
\<close>

definition and_then :: "('w, 'd, 'a) async \<Rightarrow> ('a \<Rightarrow> ('w, 'd, 'b) async) \<Rightarrow> ('w, 'd, 'b) async" where
  "and_then p f = (\<lambda>w.
     case p w of
       (Resolved v, w1, es1) \<Rightarrow> (case f v w1 of (r, w2, es2) \<Rightarrow> (r, w2, es1 @ es2))
     | (Rejected e, w1, es1) \<Rightarrow> (Rejected e, w1, es1)
     | (Pending, w1, es1) \<Rightarrow> (Pending, w1, es1))"

text \<open>
  A call of an asynchronous method of a collaborator: the call is issued, the collaborator
  decides the fate of the promise and the state it leaves.
\<close>

definition invoke :: "'d call \<Rightarrow> ('w \<Rightarrow> 'a Promise \<times> 'w) \<Rightarrow> ('w, 'd, 'a) async" where
  "invoke c m = (\<lambda>w. case m w of (r, w1) \<Rightarrow> (r, w1, Issued c # settled c r))"

text \<open>
  A statement that calls a synchronous method of a collaborator for its effect, followed by
  the rest of the body.
\<close>

definition perform :: "'d call \<Rightarrow> ('w \<Rightarrow> 'w) \<Rightarrow> ('w, 'd, 'a) async \<Rightarrow> ('w, 'd, 'a) async" where
  "perform c m rest = (\<lambda>w. case rest (m w) of (r, w1, es) \<Rightarrow> (r, w1, Issued c # es))"

subsection \<open>The injected services\<close>


record ('w, 'r) ICommandService =
  executeCommand :: "string \<Rightarrow> 'w \<Rightarrow> 'r Promise \<times> 'w"

record 'w IWorkspaceContextService =
  getWorkbenchState :: "'w \<Rightarrow> WorkbenchState"
  getWorkspace :: "'w \<Rightarrow> IWorkspace"

record 'w IWorkspaceEditingService =
  removeFolders :: "URI list \<Rightarrow> 'w \<Rightarrow> unit Promise \<times> 'w"
  pickNewWorkspacePath :: "'w \<Rightarrow> URI option Promise \<times> 'w"
  createAndEnterWorkspace :: "IWorkspaceFolderCreationData list \<Rightarrow> URI \<Rightarrow> 'w \<Rightarrow> unit Promise \<times> 'w"
  saveAndEnterWorkspace :: "URI \<Rightarrow> 'w \<Rightarrow> unit Promise \<times> 'w"
  copyWorkspaceSettings :: "IWorkspaceIdentifier \<Rightarrow> 'w \<Rightarrow> unit Promise \<times> 'w"

record 'w IWorkspacesService =
  createUntitledWorkspace :: "IWorkspaceFolder list \<Rightarrow> string option \<Rightarrow> 'w \<Rightarrow> IWorkspaceIdentifier Promise \<times> 'w"

record ('w, 'r) IWindowService =
  closeWorkspace :: "'w \<Rightarrow> unit Promise \<times> 'w"
  getConfiguration :: "'w \<Rightarrow> IWindowConfiguration"
  openWindow :: "IURIToOpen list \<Rightarrow> IOpenSettings \<Rightarrow> 'w \<Rightarrow> 'r Promise \<times> 'w"

text \<open>\<^verbatim>\<open>openEditor\<close> resolves to an editor or to no value.\<close>

record ('w, 'r) IEditorService =
  openEditor :: "IResourceInput \<Rightarrow> 'w \<Rightarrow> 'r option Promise \<times> 'w"

record 'w INotificationService =
  info :: "string \<Rightarrow> 'w \<Rightarrow> 'w"

text \<open>
  The imported modules \<^verbatim>\<open>vs/nls\<close> and \<^verbatim>\<open>vs/workbench/browser/actions/workspaceCommands\<close>
  are not part of the file: \<^verbatim>\<open>nls.localize\<close> and the three constants are parameters.
\<close>

record imported =
  localize :: "string \<Rightarrow> string \<Rightarrow> string"
  ADD_ROOT_FOLDER_COMMAND_ID :: string
  ADD_ROOT_FOLDER_LABEL :: string
  PICK_WORKSPACE_FOLDER_COMMAND_ID :: string

subsection \<open>The \<^verbatim>\<open>Action\<close> base class\<close>

text \<open>
  Modelled from the spec: the class \<^verbatim>\<open>Action\<close> is imported from
  \<^verbatim>\<open>vs/base/common/actions\<close>. An action has an id, a label and an enabled flag;
  \<^verbatim>\<open>super(id, label)\<close> leaves the action enabled.
\<close>

record Action =
  action_id :: string
  label :: string
  enabled :: bool

definition Action_new :: "string \<Rightarrow> string \<Rightarrow> Action" where
  "Action_new i l = \<lparr>action_id = i, label = l, enabled = True\<rparr>"

subsection \<open>The static identifiers\<close>

definition OpenFileAction_ID :: string where
  "OpenFileAction_ID = ''workbench.action.files.openFile''"

definition OpenFolderAction_ID :: string where
  "OpenFolderAction_ID = ''workbench.action.files.openFolder''"

definition OpenFileFolderAction_ID :: string where
  "OpenFileFolderAction_ID = ''workbench.action.files.openFileFolder''"

definition AddRootFolderAction_ID :: string where
  "AddRootFolderAction_ID = ''workbench.action.addRootFolder''"

definition GlobalRemoveRootFolderAction_ID :: string where
  "GlobalRemoveRootFolderAction_ID = ''workbench.action.removeRootFolder''"

definition SaveWorkspaceAsAction_ID :: string where
  "SaveWorkspaceAsAction_ID = ''workbench.action.saveWorkspaceAs''"

definition OpenWorkspaceAction_ID :: string where
  "OpenWorkspaceAction_ID = ''workbench.action.openWorkspace''"

definition CloseWorkspaceAction_ID :: string where
  "CloseWorkspaceAction_ID = ''workbench.action.closeFolder''"

definition OpenWorkspaceConfigFileAction_ID :: string where
  "OpenWorkspaceConfigFileAction_ID = ''workbench.action.openWorkspaceConfigFile''"

definition DuplicateWorkspaceInNewWindowAction_ID :: string where
  "DuplicateWorkspaceInNewWindowAction_ID = ''workbench.action.duplicateWorkspaceInNewWindow''"

text \<open>The static \<^verbatim>\<open>ID\<close> fields of the ten classes, in the order of the file.\<close>

definition action_IDs :: "string list" where
  "action_IDs =
    [OpenFileAction_ID, OpenFolderAction_ID, OpenFileFolderAction_ID, AddRootFolderAction_ID,
     GlobalRemoveRootFolderAction_ID, SaveWorkspaceAsAction_ID, OpenWorkspaceAction_ID,
     CloseWorkspaceAction_ID, OpenWorkspaceConfigFileAction_ID,
     DuplicateWorkspaceInNewWindowAction_ID]"

subsection \<open>The \<^verbatim>\<open>run\<close> methods\<close>




definition AddRootFolderAction_run ::
  "imported \<Rightarrow> ('w, 'r) ICommandService \<Rightarrow> ('w, 'd, 'r) async" where
  "AddRootFolderAction_run im commandService =
     invoke (ExecuteCommand (ADD_ROOT_FOLDER_COMMAND_ID im))
       (executeCommand commandService (ADD_ROOT_FOLDER_COMMAND_ID im))"

text \<open>
  \<^verbatim>\<open>executeCommand<IWorkspaceFolder>\<close> resolves to a folder or to \<^verbatim>\<open>undefined\<close>, which is
  the one falsy value of that type.
\<close>

definition GlobalRemoveRootFolderAction_run ::
  "imported \<Rightarrow> 'w IWorkspaceEditingService \<Rightarrow> 'w IWorkspaceContextService \<Rightarrow>
   ('w, IWorkspaceFolder option) ICommandService \<Rightarrow> ('w, 'd, bool) async" where
  "GlobalRemoveRootFolderAction_run im workspaceEditingService contextService commandService =
     (\<lambda>w.
       let state = getWorkbenchState contextService w in
       if state = WORKSPACE \<or> state = FOLDER then
         and_then
           (invoke (ExecuteCommand (PICK_WORKSPACE_FOLDER_COMMAND_ID im))
              (executeCommand commandService (PICK_WORKSPACE_FOLDER_COMMAND_ID im)))
           (\<lambda>folder.
              case folder of
                Some f \<Rightarrow>
                  and_then
                    (invoke (RemoveFolders [uri f]) (removeFolders workspaceEditingService [uri f]))
                    (\<lambda>_. resolve True)
              | None \<Rightarrow> resolve True)
           w
       else resolve True w)"

text \<open>
  The callback of \<^verbatim>\<open>SaveWorkspaceAsAction.run\<close> reads the workbench state and the
  workspace when it runs, that is in the state the picker has left. A callback that
  returns nothing fulfils the promise with \<^verbatim>\<open>undefined\<close>. The \<^verbatim>\<open>switch\<close> has a case for
  each of the three states.
\<close>

definition SaveWorkspaceAsAction_run ::
  "'w IWorkspaceContextService \<Rightarrow> 'w IWorkspaceEditingService \<Rightarrow> ('w, 'd, unit) async" where
  "SaveWorkspaceAsAction_run contextService workspaceEditingService =
     and_then
       (invoke PickNewWorkspacePath (pickNewWorkspacePath workspaceEditingService))
       (\<lambda>configPathUri w.
          case configPathUri of
            Some p \<Rightarrow>
              (case getWorkbenchState contextService w of
                 EMPTY \<Rightarrow>
                   (let fs = map (\<lambda>folder. \<lparr>uri = uri folder\<rparr>) (folders (getWorkspace contextService w))
                    in invoke (CreateAndEnterWorkspace fs p)
                         (createAndEnterWorkspace workspaceEditingService fs p) w)
               | FOLDER \<Rightarrow>
                   (let fs = map (\<lambda>folder. \<lparr>uri = uri folder\<rparr>) (folders (getWorkspace contextService w))
                    in invoke (CreateAndEnterWorkspace fs p)
                         (createAndEnterWorkspace workspaceEditingService fs p) w)
               | WORKSPACE \<Rightarrow>
                   invoke (SaveAndEnterWorkspace p) (saveAndEnterWorkspace workspaceEditingService p) w)
          | None \<Rightarrow> resolve () w)"


definition noWorkspaceOpened :: "imported \<Rightarrow> string" where
  "noWorkspaceOpened im =
     localize im ''noWorkspaceOpened''
       ''There is currently no workspace opened in this instance to close.''"

definition CloseWorkspaceAction_run ::
  "imported \<Rightarrow> 'w IWorkspaceContextService \<Rightarrow> 'w INotificationService \<Rightarrow>
   ('w, 'r) IWindowService \<Rightarrow> ('w, 'd, unit) async" where
  "CloseWorkspaceAction_run im contextService notificationService windowService =
     (\<lambda>w.
       if getWorkbenchState contextService w = EMPTY then
         perform (Info (noWorkspaceOpened im)) (info notificationService (noWorkspaceOpened im))
           (resolve ()) w
       else invoke CloseWorkspace (closeWorkspace windowService) w)"

text \<open>
  The constructor of \<^verbatim>\<open>OpenWorkspaceConfigFileAction\<close> reads the workspace in the state
  in which the instance is made. \<^verbatim>\<open>!!c\<close> is true unless \<open>c\<close> is \<^verbatim>\<open>null\<close>.
\<close>

definition OpenWorkspaceConfigFileAction_new ::
  "string \<Rightarrow> string \<Rightarrow> 'w IWorkspaceContextService \<Rightarrow> 'w \<Rightarrow> Action" where
  "OpenWorkspaceConfigFileAction_new i l workspaceContextService w =
     (Action_new i l)\<lparr>enabled := (configuration (getWorkspace workspaceContextService w) \<noteq> None)\<rparr>"

text \<open>
  \<^verbatim>\<open>run\<close> is a method of the instance: it takes \<open>this\<close> and hands back the instance as
  it leaves it, next to the result. A \<^verbatim>\<open>Promise.resolve()\<close> without argument is fulfilled
  with no value.
\<close>

definition OpenWorkspaceConfigFileAction_run ::
  "'w IWorkspaceContextService \<Rightarrow> ('w, 'r) IEditorService \<Rightarrow> Action \<Rightarrow>
   'w \<Rightarrow> ('r option Promise \<times> 'w \<times> 'd event list) \<times> Action" where
  "OpenWorkspaceConfigFileAction_run workspaceContextService editorService this w =
     (case configuration (getWorkspace workspaceContextService w) of
        Some c \<Rightarrow>
          (invoke (OpenEditor \<lparr>resource = c\<rparr>) (openEditor editorService \<lparr>resource = c\<rparr>) w,
           this)
      | None \<Rightarrow> (resolve None w, this))"

definition DuplicateWorkspaceInNewWindowAction_run ::
  "'w IWorkspaceContextService \<Rightarrow> 'w IWorkspaceEditingService \<Rightarrow> ('w, 'r) IWindowService \<Rightarrow>
   'w IWorkspacesService \<Rightarrow> ('w, 'd, 'r) async" where
  "DuplicateWorkspaceInNewWindowAction_run workspaceContextService workspaceEditingService
       windowService workspacesService =
     (\<lambda>w.
       let fs = folders (getWorkspace workspaceContextService w);
           ra = remoteAuthority (getConfiguration windowService w)
       in and_then
            (invoke (CreateUntitledWorkspace fs ra) (createUntitledWorkspace workspacesService fs ra))
            (\<lambda>newWorkspace.
               and_then
                 (invoke (CopyWorkspaceSettings newWorkspace)
                    (copyWorkspaceSettings workspaceEditingService newWorkspace))
                 (\<lambda>_. invoke
                    (OpenWindow [\<lparr>IURIToOpen.uri = configPath newWorkspace, typeHint = Some ''file''\<rparr>]
                       \<lparr>IOpenSettings.forceNewWindow = Some True\<rparr>)
                    (openWindow windowService
                       [\<lparr>IURIToOpen.uri = configPath newWorkspace, typeHint = Some ''file''\<rparr>]
                       \<lparr>IOpenSettings.forceNewWindow = Some True\<rparr>)))
            w)"

subsection \<open>Observing a run\<close>

text \<open>The three components of what a computation yields, and the calls among its events.\<close>

definition promise_of :: "'a Promise \<times> 'w \<times> 'd event list \<Rightarrow> 'a Promise" where
  "promise_of r = fst r"

definition state_of :: "'a Promise \<times> 'w \<times> 'd event list \<Rightarrow> 'w" where
  "state_of r = fst (snd r)"

definition events_of :: "'a Promise \<times> 'w \<times> 'd event list \<Rightarrow> 'd event list" where
  "events_of r = snd (snd r)"

definition calls_of :: "'a Promise \<times> 'w \<times> 'd event list \<Rightarrow> 'd call list" where
  "calls_of r = issued (events_of r)"

subsection \<open>Sample collaborators\<close>

text \<open>
  Concrete services, on which the theorems below are instantiated. The state of the
  workbench is the workbench state and the workspace. The pickers and the settings copy
  yield what they are given; the other asynchronous methods are fulfilled. Removing
  folders, entering a workspace and closing the workspace change the state.
\<close>

type_synonym sample_world = "WorkbenchState \<times> IWorkspace"

definition sample_folder :: "string \<Rightarrow> nat \<Rightarrow> IWorkspaceFolder" where
  "sample_folder n i = \<lparr>uri = ''file:///home/u/'' @ n, name = n, index = i\<rparr>"

definition empty_world :: sample_world where
  "empty_world = (EMPTY, \<lparr>folders = [], configuration = None\<rparr>)"

definition folder_world :: sample_world where
  "folder_world = (FOLDER, \<lparr>folders = [sample_folder ''app'' 0], configuration = None\<rparr>)"

definition workspace_world :: sample_world where
  "workspace_world =
     (WORKSPACE,
      \<lparr>folders = [sample_folder ''app'' 0, sample_folder ''lib'' 1],
       configuration = Some ''file:///home/u/team.code-workspace''\<rparr>)"

definition sample_imported :: imported where
  "sample_imported =
     \<lparr>localize = (\<lambda>key message. message),
      ADD_ROOT_FOLDER_COMMAND_ID = ''addRootFolder'',
      ADD_ROOT_FOLDER_LABEL = ''Add Folder to Workspace...'',
      PICK_WORKSPACE_FOLDER_COMMAND_ID = ''_workbench.pickWorkspaceFolder''\<rparr>"

definition sample_contextService :: "sample_world IWorkspaceContextService" where
  "sample_contextService = \<lparr>getWorkbenchState = fst, getWorkspace = snd\<rparr>"

definition sample_commandService ::
  "IWorkspaceFolder option \<Rightarrow> (sample_world, IWorkspaceFolder option) ICommandService" where
  "sample_commandService picked = \<lparr>executeCommand = (\<lambda>c w. (Resolved picked, w))\<rparr>"

definition sample_workspaceEditingService ::
  "URI option \<Rightarrow> unit Promise \<Rightarrow> sample_world IWorkspaceEditingService" where
  "sample_workspaceEditingService picked copied =
     \<lparr>removeFolders =
        (\<lambda>us w. (Resolved (),
           (fst w, (snd w)\<lparr>folders := filter (\<lambda>f. uri f \<notin> set us) (folders (snd w))\<rparr>))),
      pickNewWorkspacePath = (\<lambda>w. (Resolved picked, w)),
      createAndEnterWorkspace =
        (\<lambda>fs p w. (Resolved (),
           (WORKSPACE,
            \<lparr>folders = map (\<lambda>d. \<lparr>uri = uri d, name = [], index = 0\<rparr>) fs,
             configuration = Some p\<rparr>))),
      saveAndEnterWorkspace =
        (\<lambda>p w. (Resolved (), (WORKSPACE, (snd w)\<lparr>configuration := Some p\<rparr>))),
      copyWorkspaceSettings = (\<lambda>nw w. (copied, w))\<rparr>"

definition sample_workspacesService :: "sample_world IWorkspacesService" where
  "sample_workspacesService =
     \<lparr>createUntitledWorkspace =
        (\<lambda>fs ra w. (Resolved \<lparr>workspace_id = ''1'', configPath = ''file:///tmp/1/workspace.json''\<rparr>, w))\<rparr>"

definition sample_windowService :: "(sample_world, unit) IWindowService" where
  "sample_windowService =
     \<lparr>closeWorkspace = (\<lambda>w. (Resolved (), empty_world)),
      getConfiguration = (\<lambda>w. \<lparr>remoteAuthority = None\<rparr>),
      openWindow = (\<lambda>us os w. (Resolved (), w))\<rparr>"

definition sample_editorService :: "(sample_world, string) IEditorService" where
  "sample_editorService = \<lparr>openEditor = (\<lambda>i w. (Resolved (Some (resource i)), w))\<rparr>"

definition sample_notificationService :: "sample_world INotificationService" where
  "sample_notificationService = \<lparr>info = (\<lambda>message w. w)\<rparr>"

section \<open>Properties\<close>

subsection \<open>Running the combinators\<close>

lemma issued_settled: "issued (settled c r) = []"
  by (cases r) simp_all

lemma resolve_apply: "resolve v w = (Resolved v, w, [])"
  by (simp add: resolve_def)

lemma invoke_apply:
  "invoke c m w = (fst (m w), snd (m w), Issued c # settled c (fst (m w)))"
  by (simp add: invoke_def split: prod.splits)

lemma and_then_apply:
  "and_then p f w =
     (case fst (p w) of
        Resolved v \<Rightarrow>
          (fst (f v (fst (snd (p w)))), fst (snd (f v (fst (snd (p w))))),
           snd (snd (p w)) @ snd (snd (f v (fst (snd (p w))))))
      | Rejected e \<Rightarrow> (Rejected e, snd (p w))
      | Pending \<Rightarrow> (Pending, snd (p w)))"
  by (cases "p w") (simp add: and_then_def split: prod.splits Promise.splits)

lemmas observe = promise_of_def state_of_def events_of_def calls_of_def

lemma calls_of_invoke: "calls_of (invoke c m w) = [c]"
  by (simp add: observe invoke_apply issued_settled)

lemma promise_of_invoke: "promise_of (invoke c m w) = fst (m w)"
  by (simp add: observe invoke_apply)

lemma state_of_invoke: "state_of (invoke c m w) = snd (m w)"
  by (simp add: observe invoke_apply)

lemma sample_states:
  "getWorkbenchState sample_contextService empty_world = EMPTY"
  "getWorkbenchState sample_contextService folder_world = FOLDER"
  "getWorkbenchState sample_contextService workspace_world = WORKSPACE"
  by (simp_all add: sample_contextService_def empty_world_def folder_world_def
      workspace_world_def)

lemma sample_picks:
  "PICK_WORKSPACE_FOLDER_COMMAND_ID sample_imported = ''_workbench.pickWorkspaceFolder''"
  "executeCommand (sample_commandService picked) c w = (Resolved picked, w)"
  "fst (removeFolders (sample_workspaceEditingService p q) us w) = Resolved ()"
  "snd (removeFolders (sample_workspaceEditingService p q) [''file:///home/u/app''] folder_world) =
     (FOLDER, \<lparr>folders = [], configuration = None\<rparr>)"
  "uri (sample_folder ''app'' 0) = ''file:///home/u/app''"
  by (simp_all add: sample_imported_def sample_commandService_def
      sample_workspaceEditingService_def sample_folder_def folder_world_def)

subsection \<open>The file and folder dialogs\<close>



subsection \<open>The identifiers\<close>

text \<open>
  C7. The static IDs of the ten action classes are the ten command identifiers of the
  external interface; they are pairwise distinct and none is the empty string.
\<close>

theorem action_IDs_exact:
  "action_IDs =
     [''workbench.action.files.openFile'', ''workbench.action.files.openFolder'',
      ''workbench.action.files.openFileFolder'', ''workbench.action.addRootFolder'',
      ''workbench.action.removeRootFolder'', ''workbench.action.saveWorkspaceAs'',
      ''workbench.action.openWorkspace'', ''workbench.action.closeFolder'',
      ''workbench.action.openWorkspaceConfigFile'',
      ''workbench.action.duplicateWorkspaceInNewWindow'']
   \<and> length action_IDs = 10 \<and> distinct action_IDs \<and> [] \<notin> set action_IDs"
  by (simp add: action_IDs_def OpenFileAction_ID_def OpenFolderAction_ID_def
      OpenFileFolderAction_ID_def AddRootFolderAction_ID_def GlobalRemoveRootFolderAction_ID_def
      SaveWorkspaceAsAction_ID_def OpenWorkspaceAction_ID_def CloseWorkspaceAction_ID_def
      OpenWorkspaceConfigFileAction_ID_def DuplicateWorkspaceInNewWindowAction_ID_def)

subsection \<open>Closing the workspace\<close>

text \<open>
  C3. In the state \<open>EMPTY\<close> the close-workspace action makes one call in all, the
  informational notification, so the window service's \<^verbatim>\<open>closeWorkspace\<close> is not invoked,
  its promise is fulfilled, and the state it leaves is the one the notification service's
  \<^verbatim>\<open>info\<close> leaves on that message. In the states \<open>FOLDER\<close> and \<open>WORKSPACE\<close> it makes
  one call in all, \<^verbatim>\<open>closeWorkspace\<close>, so no notification is emitted, and its promise and
  the state it leaves are those of the window service's \<^verbatim>\<open>closeWorkspace\<close>.
\<close>

theorem close_workspace_cases:
  "let r = (CloseWorkspaceAction_run im contextService notificationService windowService w
              :: unit Promise \<times> 'w \<times> 'd event list)
   in (getWorkbenchState contextService w = EMPTY \<longrightarrow>
         calls_of r = [Info (noWorkspaceOpened im)] \<and> promise_of r = Resolved ()
         \<and> state_of r = info notificationService (noWorkspaceOpened im) w)
    \<and> (getWorkbenchState contextService w = FOLDER \<or> getWorkbenchState contextService w = WORKSPACE \<longrightarrow>
         calls_of r = [CloseWorkspace] \<and> promise_of r = fst (closeWorkspace windowService w)
         \<and> state_of r = snd (closeWorkspace windowService w))"
  by (auto simp add: CloseWorkspaceAction_run_def perform_def resolve_apply observe invoke_apply
      issued_settled)

theorem close_workspace_cases_witness:
  "let r = (CloseWorkspaceAction_run sample_imported sample_contextService
              sample_notificationService sample_windowService empty_world
              :: unit Promise \<times> sample_world \<times> unit event list);
       r' = (CloseWorkspaceAction_run sample_imported sample_contextService
              sample_notificationService sample_windowService workspace_world
              :: unit Promise \<times> sample_world \<times> unit event list)
   in getWorkbenchState sample_contextService empty_world = EMPTY
    \<and> calls_of r = [Info ''There is currently no workspace opened in this instance to close.'']
    \<and> promise_of r = Resolved ()
    \<and> state_of r = empty_world
    \<and> getWorkbenchState sample_contextService workspace_world = WORKSPACE
    \<and> calls_of r' = [CloseWorkspace]
    \<and> promise_of r' = Resolved ()
    \<and> state_of r' = empty_world"
proof -
  have e: "getWorkbenchState sample_contextService empty_world = EMPTY"
    by (simp add: sample_contextService_def empty_world_def)
  have f: "getWorkbenchState sample_contextService workspace_world = WORKSPACE"
    by (simp add: sample_contextService_def workspace_world_def)
  have m: "noWorkspaceOpened sample_imported =
      ''There is currently no workspace opened in this instance to close.''"
    by (simp add: noWorkspaceOpened_def sample_imported_def)
  have c: "closeWorkspace sample_windowService workspace_world = (Resolved (), empty_world)"
    by (simp add: sample_windowService_def)
  have n: "info sample_notificationService
      ''There is currently no workspace opened in this instance to close.'' empty_world =
      empty_world"
    by (simp add: sample_notificationService_def)
  show ?thesis
    using
      close_workspace_cases [where contextService = sample_contextService and w = empty_world
        and im = sample_imported and notificationService = sample_notificationService
        and windowService = sample_windowService, where ?'d = unit]
      close_workspace_cases [where contextService = sample_contextService and w = workspace_world
        and im = sample_imported and notificationService = sample_notificationService
        and windowService = sample_windowService, where ?'d = unit]
    by (simp add: e f m c n Let_def)
qed

subsection \<open>Removing a root folder\<close>

text \<open>What \<^verbatim>\<open>GlobalRemoveRootFolderAction.run\<close> yields on each of its paths.\<close>

lemma GlobalRemoveRootFolderAction_run_EMPTY:
  "getWorkbenchState contextService w = EMPTY \<Longrightarrow>
   GlobalRemoveRootFolderAction_run im workspaceEditingService contextService commandService w =
     (Resolved True, w, [])"
  by (simp add: GlobalRemoveRootFolderAction_run_def resolve_apply)

lemma GlobalRemoveRootFolderAction_run_rejected:
  "getWorkbenchState contextService w \<noteq> EMPTY \<Longrightarrow>
   fst (executeCommand commandService (PICK_WORKSPACE_FOLDER_COMMAND_ID im) w) = Rejected e \<Longrightarrow>
   GlobalRemoveRootFolderAction_run im workspaceEditingService contextService commandService w =
     (Rejected e, snd (executeCommand commandService (PICK_WORKSPACE_FOLDER_COMMAND_ID im) w),
      [Issued (ExecuteCommand (PICK_WORKSPACE_FOLDER_COMMAND_ID im)),
       Failed (ExecuteCommand (PICK_WORKSPACE_FOLDER_COMMAND_ID im)) e])"
  by (cases "getWorkbenchState contextService w")
    (simp_all add: GlobalRemoveRootFolderAction_run_def invoke_apply and_then_apply)

lemma GlobalRemoveRootFolderAction_run_pending:
  "getWorkbenchState contextService w \<noteq> EMPTY \<Longrightarrow>
   fst (executeCommand commandService (PICK_WORKSPACE_FOLDER_COMMAND_ID im) w) = Pending \<Longrightarrow>
   GlobalRemoveRootFolderAction_run im workspaceEditingService contextService commandService w =
     (Pending, snd (executeCommand commandService (PICK_WORKSPACE_FOLDER_COMMAND_ID im) w),
      [Issued (ExecuteCommand (PICK_WORKSPACE_FOLDER_COMMAND_ID im))])"
  by (cases "getWorkbenchState contextService w")
    (simp_all add: GlobalRemoveRootFolderAction_run_def invoke_apply and_then_apply)

lemma GlobalRemoveRootFolderAction_run_cancelled:
  "getWorkbenchState contextService w \<noteq> EMPTY \<Longrightarrow>
   fst (executeCommand commandService (PICK_WORKSPACE_FOLDER_COMMAND_ID im) w) = Resolved None \<Longrightarrow>
   GlobalRemoveRootFolderAction_run im workspaceEditingService contextService commandService w =
     (Resolved True, snd (executeCommand commandService (PICK_WORKSPACE_FOLDER_COMMAND_ID im) w),
      [Issued (ExecuteCommand (PICK_WORKSPACE_FOLDER_COMMAND_ID im)),
       Fulfilled (ExecuteCommand (PICK_WORKSPACE_FOLDER_COMMAND_ID im))])"
  by (cases "getWorkbenchState contextService w")
    (simp_all add: GlobalRemoveRootFolderAction_run_def invoke_apply and_then_apply
      resolve_apply)

lemma GlobalRemoveRootFolderAction_run_picked:
  "getWorkbenchState contextService w \<noteq> EMPTY \<Longrightarrow>
   fst (executeCommand commandService (PICK_WORKSPACE_FOLDER_COMMAND_ID im) w) = Resolved (Some F) \<Longrightarrow>
   GlobalRemoveRootFolderAction_run im workspaceEditingService contextService commandService w =
     (let w1 = snd (executeCommand commandService (PICK_WORKSPACE_FOLDER_COMMAND_ID im) w);
          rm = removeFolders workspaceEditingService [uri F] w1
      in (case fst rm of Resolved u \<Rightarrow> Resolved True | Rejected e \<Rightarrow> Rejected e | Pending \<Rightarrow> Pending,
          snd rm,
          [Issued (ExecuteCommand (PICK_WORKSPACE_FOLDER_COMMAND_ID im)),
           Fulfilled (ExecuteCommand (PICK_WORKSPACE_FOLDER_COMMAND_ID im)),
           Issued (RemoveFolders [uri F])] @ settled (RemoveFolders [uri F]) (fst rm)))"
  by (cases "getWorkbenchState contextService w";
      cases "fst (removeFolders workspaceEditingService [uri F]
        (snd (executeCommand commandService (PICK_WORKSPACE_FOLDER_COMMAND_ID im) w)))")
    (simp_all add: GlobalRemoveRootFolderAction_run_def invoke_apply and_then_apply resolve_apply Let_def)

text \<open>
  C2. In the state \<open>EMPTY\<close> the remove-root-folder action is fulfilled with \<^verbatim>\<open>true\<close>, makes
  no call (neither the pick command nor \<^verbatim>\<open>removeFolders\<close>) and leaves the state as it is.
  In the states \<open>FOLDER\<close> and \<open>WORKSPACE\<close> its first call dispatches the pick command. When
  the pick is fulfilled with a folder \<open>F\<close>, the calls are the pick and then
  \<^verbatim>\<open>removeFolders\<close> with the one-element list \<open>[uri F]\<close>; the state the action leaves is
  the one the editing service's \<^verbatim>\<open>removeFolders\<close> leaves on that list, applied in the state
  after the pick, and the action is fulfilled with \<^verbatim>\<open>true\<close>, rejected or pending as that
  removal is fulfilled, rejected or pending. When the pick is fulfilled with no folder, the
  pick is the only call, the action is fulfilled with \<^verbatim>\<open>true\<close> and the state is the one
  after the pick. When the pick is rejected or stays pending, so does the action, in the
  state after the pick.
\<close>

theorem remove_root_folder_cases:
  "let r = (GlobalRemoveRootFolderAction_run im workspaceEditingService contextService
              commandService w :: bool Promise \<times> 'w \<times> 'd event list);
       pick = executeCommand commandService (PICK_WORKSPACE_FOLDER_COMMAND_ID im) w
   in (getWorkbenchState contextService w = EMPTY \<longrightarrow>
         promise_of r = Resolved True \<and> calls_of r = [] \<and> state_of r = w)
    \<and> (getWorkbenchState contextService w = FOLDER \<or> getWorkbenchState contextService w = WORKSPACE \<longrightarrow>
         take 1 (calls_of r) = [ExecuteCommand (PICK_WORKSPACE_FOLDER_COMMAND_ID im)]
         \<and> (\<forall>F. fst pick = Resolved (Some F) \<longrightarrow>
               calls_of r =
                 [ExecuteCommand (PICK_WORKSPACE_FOLDER_COMMAND_ID im), RemoveFolders [uri F]]
               \<and> promise_of r =
                 (case fst (removeFolders workspaceEditingService [uri F] (snd pick)) of
                    Resolved u \<Rightarrow> Resolved True
                  | Rejected e \<Rightarrow> Rejected e
                  | Pending \<Rightarrow> Pending)
               \<and> state_of r = snd (removeFolders workspaceEditingService [uri F] (snd pick)))
         \<and> (fst pick = Resolved None \<longrightarrow>
               calls_of r = [ExecuteCommand (PICK_WORKSPACE_FOLDER_COMMAND_ID im)]
               \<and> promise_of r = Resolved True \<and> state_of r = snd pick)
         \<and> (\<forall>e. fst pick = Rejected e \<longrightarrow>
               calls_of r = [ExecuteCommand (PICK_WORKSPACE_FOLDER_COMMAND_ID im)]
               \<and> promise_of r = Rejected e \<and> state_of r = snd pick)
         \<and> (fst pick = Pending \<longrightarrow>
               calls_of r = [ExecuteCommand (PICK_WORKSPACE_FOLDER_COMMAND_ID im)]
               \<and> promise_of r = Pending \<and> state_of r = snd pick))"
proof -
  let ?r = "GlobalRemoveRootFolderAction_run im workspaceEditingService contextService
              commandService w :: bool Promise \<times> 'w \<times> 'd event list"
  let ?c = "ExecuteCommand (PICK_WORKSPACE_FOLDER_COMMAND_ID im) :: 'd call"
  let ?pick = "executeCommand commandService (PICK_WORKSPACE_FOLDER_COMMAND_ID im) w"
  have empty: "promise_of ?r = Resolved True \<and> calls_of ?r = [] \<and> state_of ?r = w"
    if "getWorkbenchState contextService w = EMPTY"
    using that by (simp add: GlobalRemoveRootFolderAction_run_EMPTY observe)
  have picked:
    "calls_of ?r = [?c, RemoveFolders [uri F]]
     \<and> promise_of ?r =
         (case fst (removeFolders workspaceEditingService [uri F] (snd ?pick)) of
            Resolved u \<Rightarrow> Resolved True
          | Rejected e \<Rightarrow> Rejected e
          | Pending \<Rightarrow> Pending)
     \<and> state_of ?r = snd (removeFolders workspaceEditingService [uri F] (snd ?pick))"
    if "getWorkbenchState contextService w \<noteq> EMPTY" and "fst ?pick = Resolved (Some F)" for F
    using that
    by (simp add: GlobalRemoveRootFolderAction_run_picked observe Let_def issued_settled)
  have rejected: "calls_of ?r = [?c] \<and> promise_of ?r = Rejected e \<and> state_of ?r = snd ?pick"
    if "getWorkbenchState contextService w \<noteq> EMPTY" and "fst ?pick = Rejected e" for e
    using that by (simp add: GlobalRemoveRootFolderAction_run_rejected observe)
  have pending: "calls_of ?r = [?c] \<and> promise_of ?r = Pending \<and> state_of ?r = snd ?pick"
    if "getWorkbenchState contextService w \<noteq> EMPTY" and "fst ?pick = Pending"
    using that by (simp add: GlobalRemoveRootFolderAction_run_pending observe)
  have cancelled: "calls_of ?r = [?c] \<and> promise_of ?r = Resolved True \<and> state_of ?r = snd ?pick"
    if "getWorkbenchState contextService w \<noteq> EMPTY" and "fst ?pick = Resolved None"
    using that by (simp add: GlobalRemoveRootFolderAction_run_cancelled observe)
  have first: "take 1 (calls_of ?r) = [?c]"
    if ne: "getWorkbenchState contextService w \<noteq> EMPTY"
  proof (cases "fst ?pick")
    case (Resolved folder)
    then show ?thesis
      using ne picked cancelled by (cases folder) simp_all
  next
    case (Rejected e)
    then show ?thesis
      using ne rejected by simp
  next
    case Pending
    then show ?thesis
      using ne pending by simp
  qed
  have ne: "getWorkbenchState contextService w \<noteq> EMPTY"
    if "getWorkbenchState contextService w = FOLDER \<or> getWorkbenchState contextService w = WORKSPACE"
    using that by auto
  show ?thesis
    unfolding Let_def
    using empty picked cancelled rejected pending first ne by blast
qed

theorem remove_root_folder_cases_witness:
  "let r0 = (GlobalRemoveRootFolderAction_run sample_imported
               (sample_workspaceEditingService None (Resolved ())) sample_contextService
               (sample_commandService None) empty_world
               :: bool Promise \<times> sample_world \<times> unit event list);
       r1 = (GlobalRemoveRootFolderAction_run sample_imported
               (sample_workspaceEditingService None (Resolved ())) sample_contextService
               (sample_commandService (Some (sample_folder ''app'' 0))) folder_world
               :: bool Promise \<times> sample_world \<times> unit event list);
       r2 = (GlobalRemoveRootFolderAction_run sample_imported
               (sample_workspaceEditingService None (Resolved ())) sample_contextService
               (sample_commandService None) workspace_world
               :: bool Promise \<times> sample_world \<times> unit event list)
   in getWorkbenchState sample_contextService empty_world = EMPTY
    \<and> promise_of r0 = Resolved True \<and> calls_of r0 = [] \<and> state_of r0 = empty_world
    \<and> getWorkbenchState sample_contextService folder_world = FOLDER
    \<and> fst (executeCommand (sample_commandService (Some (sample_folder ''app'' 0)))
          ''_workbench.pickWorkspaceFolder'' folder_world) = Resolved (Some (sample_folder ''app'' 0))
    \<and> calls_of r1 =
        [ExecuteCommand ''_workbench.pickWorkspaceFolder'', RemoveFolders [''file:///home/u/app'']]
    \<and> promise_of r1 = Resolved True
    \<and> state_of r1 = (FOLDER, \<lparr>folders = [], configuration = None\<rparr>)
    \<and> getWorkbenchState sample_contextService workspace_world = WORKSPACE
    \<and> fst (executeCommand (sample_commandService None)
          ''_workbench.pickWorkspaceFolder'' workspace_world) = Resolved None
    \<and> calls_of r2 = [ExecuteCommand ''_workbench.pickWorkspaceFolder'']
    \<and> promise_of r2 = Resolved True
    \<and> state_of r2 = workspace_world"
  using
    remove_root_folder_cases [where im = sample_imported
      and workspaceEditingService = "sample_workspaceEditingService None (Resolved ())"
      and contextService = sample_contextService and commandService = "sample_commandService None"
      and w = empty_world, where ?'d = unit]
    remove_root_folder_cases [where im = sample_imported
      and workspaceEditingService = "sample_workspaceEditingService None (Resolved ())"
      and contextService = sample_contextService
      and commandService = "sample_commandService (Some (sample_folder ''app'' 0))"
      and w = folder_world, where ?'d = unit]
    remove_root_folder_cases [where im = sample_imported
      and workspaceEditingService = "sample_workspaceEditingService None (Resolved ())"
      and contextService = sample_contextService and commandService = "sample_commandService None"
      and w = workspace_world, where ?'d = unit]
  by (simp add: Let_def sample_states sample_picks)

text \<open>
  C8. Whenever the promise of the remove-root-folder action is fulfilled, its value is
  \<^verbatim>\<open>true\<close>; and it is fulfilled with \<^verbatim>\<open>true\<close> in the state \<open>EMPTY\<close>, when the pick yields no
  folder, and when the pick yields a folder and \<^verbatim>\<open>removeFolders\<close> is fulfilled.
\<close>

theorem remove_root_folder_resolves_true:
  "let r = (GlobalRemoveRootFolderAction_run im workspaceEditingService contextService
              commandService w :: bool Promise \<times> 'w \<times> 'd event list);
       pick = executeCommand commandService (PICK_WORKSPACE_FOLDER_COMMAND_ID im) w
   in (\<forall>v. promise_of r = Resolved v \<longrightarrow> v = True)
    \<and> (getWorkbenchState contextService w = EMPTY \<longrightarrow> promise_of r = Resolved True)
    \<and> (getWorkbenchState contextService w \<noteq> EMPTY \<and> fst pick = Resolved None \<longrightarrow>
         promise_of r = Resolved True)
    \<and> (\<forall>F u. getWorkbenchState contextService w \<noteq> EMPTY \<and> fst pick = Resolved (Some F)
           \<and> fst (removeFolders workspaceEditingService [uri F] (snd pick)) = Resolved u \<longrightarrow>
         promise_of r = Resolved True)"
proof -
  let ?r = "GlobalRemoveRootFolderAction_run im workspaceEditingService contextService
              commandService w :: bool Promise \<times> 'w \<times> 'd event list"
  let ?pick = "executeCommand commandService (PICK_WORKSPACE_FOLDER_COMMAND_ID im) w"
  have empty: "promise_of ?r = Resolved True"
    if "getWorkbenchState contextService w = EMPTY"
    using that by (simp add: GlobalRemoveRootFolderAction_run_EMPTY observe)
  have cancelled: "promise_of ?r = Resolved True"
    if "getWorkbenchState contextService w \<noteq> EMPTY" and "fst ?pick = Resolved None"
    using that by (simp add: GlobalRemoveRootFolderAction_run_cancelled observe)
  have removed: "promise_of ?r = Resolved True"
    if "getWorkbenchState contextService w \<noteq> EMPTY" and "fst ?pick = Resolved (Some F)"
      and "fst (removeFolders workspaceEditingService [uri F] (snd ?pick)) = Resolved u" for F u
    using that by (simp add: GlobalRemoveRootFolderAction_run_picked observe Let_def)
  have only_true: "v = True" if res: "promise_of ?r = Resolved v" for v
  proof (cases "getWorkbenchState contextService w = EMPTY")
    case True
    then show ?thesis using res empty by simp
  next
    case ne: False
    show ?thesis
    proof (cases "fst ?pick")
      case (Resolved folder)
      show ?thesis
      proof (cases folder)
        case None
        then show ?thesis using res ne Resolved cancelled by simp
      next
        case (Some F)
        then show ?thesis
          using res ne Resolved
          by (cases "fst (removeFolders workspaceEditingService [uri F] (snd ?pick))")
            (simp_all add: GlobalRemoveRootFolderAction_run_picked observe Let_def)
      qed
    next
      case (Rejected e)
      then show ?thesis
        using res ne by (simp add: GlobalRemoveRootFolderAction_run_rejected observe)
    next
      case Pending
      then show ?thesis
        using res ne by (simp add: GlobalRemoveRootFolderAction_run_pending observe)
    qed
  qed
  show ?thesis
    unfolding Let_def using empty cancelled removed only_true by blast
qed

theorem remove_root_folder_resolves_true_witness:
  "let r0 = (GlobalRemoveRootFolderAction_run sample_imported
               (sample_workspaceEditingService None (Resolved ())) sample_contextService
               (sample_commandService None) empty_world
               :: bool Promise \<times> sample_world \<times> unit event list);
       r1 = (GlobalRemoveRootFolderAction_run sample_imported
               (sample_workspaceEditingService None (Resolved ())) sample_contextService
               (sample_commandService (Some (sample_folder ''app'' 0))) folder_world
               :: bool Promise \<times> sample_world \<times> unit event list);
       r2 = (GlobalRemoveRootFolderAction_run sample_imported
               (sample_workspaceEditingService None (Resolved ())) sample_contextService
               (sample_commandService None) workspace_world
               :: bool Promise \<times> sample_world \<times> unit event list)
   in getWorkbenchState sample_contextService empty_world = EMPTY
    \<and> promise_of r0 = Resolved True
    \<and> getWorkbenchState sample_contextService folder_world \<noteq> EMPTY
    \<and> fst (executeCommand (sample_commandService (Some (sample_folder ''app'' 0)))
          ''_workbench.pickWorkspaceFolder'' folder_world) = Resolved (Some (sample_folder ''app'' 0))
    \<and> fst (removeFolders (sample_workspaceEditingService None (Resolved ()))
          [''file:///home/u/app''] folder_world) = Resolved ()
    \<and> promise_of r1 = Resolved True
    \<and> getWorkbenchState sample_contextService workspace_world \<noteq> EMPTY
    \<and> fst (executeCommand (sample_commandService None)
          ''_workbench.pickWorkspaceFolder'' workspace_world) = Resolved None
    \<and> promise_of r2 = Resolved True"
  using
    remove_root_folder_resolves_true [where im = sample_imported
      and workspaceEditingService = "sample_workspaceEditingService None (Resolved ())"
      and contextService = sample_contextService and commandService = "sample_commandService None"
      and w = empty_world, where ?'d = unit]
    remove_root_folder_resolves_true [where im = sample_imported
      and workspaceEditingService = "sample_workspaceEditingService None (Resolved ())"
      and contextService = sample_contextService
      and commandService = "sample_commandService (Some (sample_folder ''app'' 0))"
      and w = folder_world, where ?'d = unit]
    remove_root_folder_resolves_true [where im = sample_imported
      and workspaceEditingService = "sample_workspaceEditingService None (Resolved ())"
      and contextService = sample_contextService and commandService = "sample_commandService None"
      and w = workspace_world, where ?'d = unit]
  by (simp add: Let_def sample_states sample_picks)

subsection \<open>Saving the workspace under a new path\<close>

text \<open>What \<^verbatim>\<open>SaveWorkspaceAsAction.run\<close> yields, by the fate of the picker's promise.\<close>

lemma SaveWorkspaceAsAction_run_eq:
  "SaveWorkspaceAsAction_run contextService workspaceEditingService w =
     (let pick = pickNewWorkspacePath workspaceEditingService w; w1 = snd pick in
      case fst pick of
        Resolved None \<Rightarrow> (Resolved (), w1, [Issued PickNewWorkspacePath, Fulfilled PickNewWorkspacePath])
      | Resolved (Some p) \<Rightarrow>
          (let c = (if getWorkbenchState contextService w1 = WORKSPACE then SaveAndEnterWorkspace p
                    else CreateAndEnterWorkspace
                      (map (\<lambda>folder. \<lparr>uri = uri folder\<rparr>) (folders (getWorkspace contextService w1))) p);
               q = (if getWorkbenchState contextService w1 = WORKSPACE
                    then saveAndEnterWorkspace workspaceEditingService p w1
                    else createAndEnterWorkspace workspaceEditingService
                      (map (\<lambda>folder. \<lparr>uri = uri folder\<rparr>) (folders (getWorkspace contextService w1))) p w1)
           in (fst q, snd q,
               [Issued PickNewWorkspacePath, Fulfilled PickNewWorkspacePath, Issued c] @ settled c (fst q)))
      | Rejected e \<Rightarrow> (Rejected e, w1, [Issued PickNewWorkspacePath, Failed PickNewWorkspacePath e])
      | Pending \<Rightarrow> (Pending, w1, [Issued PickNewWorkspacePath]))"
  by (cases "fst (pickNewWorkspacePath workspaceEditingService w)";
      cases "getWorkbenchState contextService (snd (pickNewWorkspacePath workspaceEditingService w))")
    (simp_all add: SaveWorkspaceAsAction_run_def and_then_apply invoke_apply resolve_apply Let_def
      split: option.splits)

text \<open>
  C1. The first call of the save-workspace-as action is \<^verbatim>\<open>pickNewWorkspacePath\<close>. When the
  picker is fulfilled with no path, that is the only call: nothing is created or saved.
  When it is fulfilled with a path \<open>P\<close> and the workbench state is \<open>EMPTY\<close> or \<open>FOLDER\<close>,
  the one further call is \<^verbatim>\<open>createAndEnterWorkspace\<close> with the folders of the current
  workspace, each reduced to its \<open>uri\<close>, in order, and \<open>P\<close>. When the state is
  \<open>WORKSPACE\<close>, the one further call is \<^verbatim>\<open>saveAndEnterWorkspace\<close> with \<open>P\<close> alone. In
  both cases the promise of the action and the state it leaves are those of that method of
  the editing service, applied to these arguments in the state the picker has left. The
  workbench state and the workspace are those the picker has left. When the picker is
  rejected or stays pending, so does the action, with no further call.
\<close>

theorem save_workspace_as_cases:
  "let r = (SaveWorkspaceAsAction_run contextService workspaceEditingService w
              :: unit Promise \<times> 'w \<times> 'd event list);
       pick = pickNewWorkspacePath workspaceEditingService w;
       w1 = snd pick
   in take 1 (calls_of r) = [PickNewWorkspacePath]
    \<and> (fst pick = Resolved None \<longrightarrow>
         calls_of r = [PickNewWorkspacePath] \<and> promise_of r = Resolved () \<and> state_of r = w1)
    \<and> (\<forall>P. fst pick = Resolved (Some P)
           \<and> (getWorkbenchState contextService w1 = EMPTY
              \<or> getWorkbenchState contextService w1 = FOLDER) \<longrightarrow>
         calls_of r =
           [PickNewWorkspacePath,
            CreateAndEnterWorkspace
              (map (\<lambda>folder. \<lparr>uri = uri folder\<rparr>) (folders (getWorkspace contextService w1))) P]
         \<and> promise_of r =
           fst (createAndEnterWorkspace workspaceEditingService
             (map (\<lambda>folder. \<lparr>uri = uri folder\<rparr>) (folders (getWorkspace contextService w1))) P w1)
         \<and> state_of r =
           snd (createAndEnterWorkspace workspaceEditingService
             (map (\<lambda>folder. \<lparr>uri = uri folder\<rparr>) (folders (getWorkspace contextService w1))) P w1))
    \<and> (\<forall>P. fst pick = Resolved (Some P) \<and> getWorkbenchState contextService w1 = WORKSPACE \<longrightarrow>
         calls_of r = [PickNewWorkspacePath, SaveAndEnterWorkspace P]
         \<and> promise_of r = fst (saveAndEnterWorkspace workspaceEditingService P w1)
         \<and> state_of r = snd (saveAndEnterWorkspace workspaceEditingService P w1))
    \<and> (\<forall>e. fst pick = Rejected e \<longrightarrow>
         calls_of r = [PickNewWorkspacePath] \<and> promise_of r = Rejected e \<and> state_of r = w1)
    \<and> (fst pick = Pending \<longrightarrow>
         calls_of r = [PickNewWorkspacePath] \<and> promise_of r = Pending \<and> state_of r = w1)"
  by (cases "fst (pickNewWorkspacePath workspaceEditingService w)")
    (auto simp add: SaveWorkspaceAsAction_run_eq observe Let_def issued_settled
      split: option.splits)

lemma sample_save:
  "pickNewWorkspacePath (sample_workspaceEditingService picked q) w = (Resolved picked, w)"
  "getWorkspace sample_contextService empty_world = \<lparr>folders = [], configuration = None\<rparr>"
  "getWorkspace sample_contextService folder_world =
     \<lparr>folders = [sample_folder ''app'' 0], configuration = None\<rparr>"
  "createAndEnterWorkspace (sample_workspaceEditingService picked q) fs p w =
     (Resolved (),
      (WORKSPACE,
       \<lparr>folders = map (\<lambda>d. \<lparr>uri = uri d, name = [], index = 0\<rparr>) fs, configuration = Some p\<rparr>))"
  "saveAndEnterWorkspace (sample_workspaceEditingService picked q) p workspace_world =
     (Resolved (),
      (WORKSPACE,
       \<lparr>folders = [sample_folder ''app'' 0, sample_folder ''lib'' 1], configuration = Some p\<rparr>))"
  by (simp_all add: sample_workspaceEditingService_def sample_contextService_def empty_world_def
      folder_world_def workspace_world_def)

theorem save_workspace_as_cases_witness:
  "let r0 = (SaveWorkspaceAsAction_run sample_contextService
               (sample_workspaceEditingService None (Resolved ())) folder_world
               :: unit Promise \<times> sample_world \<times> unit event list);
       r1 = (SaveWorkspaceAsAction_run sample_contextService
               (sample_workspaceEditingService (Some ''file:///home/u/new.code-workspace'')
                  (Resolved ())) empty_world
               :: unit Promise \<times> sample_world \<times> unit event list);
       r2 = (SaveWorkspaceAsAction_run sample_contextService
               (sample_workspaceEditingService (Some ''file:///home/u/new.code-workspace'')
                  (Resolved ())) folder_world
               :: unit Promise \<times> sample_world \<times> unit event list);
       r3 = (SaveWorkspaceAsAction_run sample_contextService
               (sample_workspaceEditingService (Some ''file:///home/u/new.code-workspace'')
                  (Resolved ())) workspace_world
               :: unit Promise \<times> sample_world \<times> unit event list)
   in fst (pickNewWorkspacePath (sample_workspaceEditingService None (Resolved ())) folder_world) =
        Resolved None
    \<and> calls_of r0 = [PickNewWorkspacePath] \<and> promise_of r0 = Resolved ()
    \<and> state_of r0 = folder_world
    \<and> getWorkbenchState sample_contextService empty_world = EMPTY
    \<and> calls_of r1 =
        [PickNewWorkspacePath, CreateAndEnterWorkspace [] ''file:///home/u/new.code-workspace'']
    \<and> promise_of r1 = Resolved ()
    \<and> state_of r1 =
        (WORKSPACE, \<lparr>folders = [], configuration = Some ''file:///home/u/new.code-workspace''\<rparr>)
    \<and> getWorkbenchState sample_contextService folder_world = FOLDER
    \<and> calls_of r2 =
        [PickNewWorkspacePath,
         CreateAndEnterWorkspace [\<lparr>uri = ''file:///home/u/app''\<rparr>]
           ''file:///home/u/new.code-workspace'']
    \<and> promise_of r2 = Resolved ()
    \<and> state_of r2 =
        (WORKSPACE,
         \<lparr>folders = [\<lparr>uri = ''file:///home/u/app'', name = [], index = 0\<rparr>],
          configuration = Some ''file:///home/u/new.code-workspace''\<rparr>)
    \<and> getWorkbenchState sample_contextService workspace_world = WORKSPACE
    \<and> calls_of r3 =
        [PickNewWorkspacePath, SaveAndEnterWorkspace ''file:///home/u/new.code-workspace'']
    \<and> promise_of r3 = Resolved ()
    \<and> state_of r3 =
        (WORKSPACE,
         \<lparr>folders = [sample_folder ''app'' 0, sample_folder ''lib'' 1],
          configuration = Some ''file:///home/u/new.code-workspace''\<rparr>)"
  using
    save_workspace_as_cases [where contextService = sample_contextService
      and workspaceEditingService = "sample_workspaceEditingService None (Resolved ())"
      and w = folder_world, where ?'d = unit]
    save_workspace_as_cases [where contextService = sample_contextService
      and workspaceEditingService =
        "sample_workspaceEditingService (Some ''file:///home/u/new.code-workspace'') (Resolved ())"
      and w = empty_world, where ?'d = unit]
    save_workspace_as_cases [where contextService = sample_contextService
      and workspaceEditingService =
        "sample_workspaceEditingService (Some ''file:///home/u/new.code-workspace'') (Resolved ())"
      and w = folder_world, where ?'d = unit]
    save_workspace_as_cases [where contextService = sample_contextService
      and workspaceEditingService =
        "sample_workspaceEditingService (Some ''file:///home/u/new.code-workspace'') (Resolved ())"
      and w = workspace_world, where ?'d = unit]
  by (simp add: Let_def sample_states sample_save sample_picks)

subsection \<open>Opening the workspace configuration file\<close>

text \<open>
  C4. An instance of the open-workspace-config-file action made while the workspace has no
  configuration location is disabled; one made while it has a configuration location is
  enabled. \<^verbatim>\<open>run\<close> reads the configuration location in the state in which it runs, which
  need not be the state \<open>w0\<close> of the construction: when the location is some \<open>C\<close>, the
  one call is \<^verbatim>\<open>openEditor\<close> with \<^verbatim>\<open>{ resource: C }\<close>, and the promise and the state are
  those of that call; when there is none, the promise is fulfilled, no call is made and the
  state is unchanged.
\<close>

theorem open_config_file_cases:
  "let this = OpenWorkspaceConfigFileAction_new i l workspaceContextService w0;
       r = (fst (OpenWorkspaceConfigFileAction_run workspaceContextService editorService this w)
              :: 'r option Promise \<times> 'w \<times> 'd event list)
   in (configuration (getWorkspace workspaceContextService w0) = None \<longrightarrow> enabled this = False)
    \<and> (\<forall>C. configuration (getWorkspace workspaceContextService w0) = Some C \<longrightarrow>
          enabled this = True)
    \<and> (\<forall>C. configuration (getWorkspace workspaceContextService w) = Some C \<longrightarrow>
          calls_of r = [OpenEditor \<lparr>resource = C\<rparr>]
          \<and> promise_of r = fst (openEditor editorService \<lparr>resource = C\<rparr> w)
          \<and> state_of r = snd (openEditor editorService \<lparr>resource = C\<rparr> w))
    \<and> (configuration (getWorkspace workspaceContextService w) = None \<longrightarrow>
          r = (Resolved None, w, []))"
  by (simp add: OpenWorkspaceConfigFileAction_new_def OpenWorkspaceConfigFileAction_run_def
      Action_new_def Let_def calls_of_invoke promise_of_invoke state_of_invoke resolve_apply)

lemma sample_config:
  "configuration (getWorkspace sample_contextService empty_world) = None"
  "configuration (getWorkspace sample_contextService workspace_world) =
     Some ''file:///home/u/team.code-workspace''"
  "openEditor sample_editorService i w = (Resolved (Some (resource i)), w)"
  by (simp_all add: sample_contextService_def empty_world_def workspace_world_def
      sample_editorService_def)

theorem open_config_file_cases_witness:
  "let a0 = OpenWorkspaceConfigFileAction_new OpenWorkspaceConfigFileAction_ID
              ''Open Workspace Configuration File'' sample_contextService empty_world;
       a1 = OpenWorkspaceConfigFileAction_new OpenWorkspaceConfigFileAction_ID
              ''Open Workspace Configuration File'' sample_contextService workspace_world;
       r0 = (fst (OpenWorkspaceConfigFileAction_run sample_contextService sample_editorService
                a0 empty_world) :: string option Promise \<times> sample_world \<times> unit event list);
       r1 = (fst (OpenWorkspaceConfigFileAction_run sample_contextService sample_editorService
                a1 workspace_world) :: string option Promise \<times> sample_world \<times> unit event list)
   in configuration (getWorkspace sample_contextService empty_world) = None
    \<and> enabled a0 = False
    \<and> r0 = (Resolved None, empty_world, [])
    \<and> configuration (getWorkspace sample_contextService workspace_world) =
        Some ''file:///home/u/team.code-workspace''
    \<and> enabled a1 = True
    \<and> calls_of r1 = [OpenEditor \<lparr>resource = ''file:///home/u/team.code-workspace''\<rparr>]
    \<and> promise_of r1 = Resolved (Some ''file:///home/u/team.code-workspace'')
    \<and> state_of r1 = workspace_world"
  using
    open_config_file_cases [where workspaceContextService = sample_contextService
      and editorService = sample_editorService and i = OpenWorkspaceConfigFileAction_ID
      and l = "''Open Workspace Configuration File''" and ?w0.0 = empty_world
      and w = empty_world, where ?'d = unit]
    open_config_file_cases [where workspaceContextService = sample_contextService
      and editorService = sample_editorService and i = OpenWorkspaceConfigFileAction_ID
      and l = "''Open Workspace Configuration File''" and ?w0.0 = workspace_world
      and w = workspace_world, where ?'d = unit]
  by (simp add: Let_def sample_config)

text \<open>
  C9. \<^verbatim>\<open>run\<close> of the open-workspace-config-file action returns the instance as it was,
  and what it does is the same whatever the \<open>enabled\<close> flag of the instance is: the flag
  is set by the constructor only. So the flag can be stale. An instance made in a state
  without configuration location is disabled, and its \<^verbatim>\<open>run\<close> in a state with one opens
  the editor; an instance made in a state with a configuration location is enabled, and its
  \<^verbatim>\<open>run\<close> in a state without one does nothing.
\<close>

theorem enabled_flag_not_refreshed:
  "snd (OpenWorkspaceConfigFileAction_run workspaceContextService editorService this w) = this
   \<and> fst (OpenWorkspaceConfigFileAction_run workspaceContextService editorService
        (this\<lparr>enabled := b\<rparr>) w) =
     fst (OpenWorkspaceConfigFileAction_run workspaceContextService editorService this w)
   \<and> enabled (OpenWorkspaceConfigFileAction_new i l sample_contextService empty_world) = False
   \<and> calls_of (fst (OpenWorkspaceConfigFileAction_run sample_contextService sample_editorService
        (OpenWorkspaceConfigFileAction_new i l sample_contextService empty_world)
        workspace_world)) =
     [OpenEditor \<lparr>resource = ''file:///home/u/team.code-workspace''\<rparr>]
   \<and> enabled (OpenWorkspaceConfigFileAction_new i l sample_contextService workspace_world) = True
   \<and> fst (OpenWorkspaceConfigFileAction_run sample_contextService sample_editorService
        (OpenWorkspaceConfigFileAction_new i l sample_contextService workspace_world)
        empty_world) =
     (Resolved None, empty_world, [])"
  by (simp add: OpenWorkspaceConfigFileAction_new_def OpenWorkspaceConfigFileAction_run_def
      Action_new_def sample_config calls_of_invoke resolve_apply split: option.splits)

subsection \<open>Duplicating the workspace in a new window\<close>

text \<open>What \<^verbatim>\<open>DuplicateWorkspaceInNewWindowAction.run\<close> yields, by the fates of the promises.\<close>

lemma DuplicateWorkspaceInNewWindowAction_run_eq:
  "DuplicateWorkspaceInNewWindowAction_run workspaceContextService workspaceEditingService
       windowService workspacesService w =
     (let fs = folders (getWorkspace workspaceContextService w);
          ra = remoteAuthority (getConfiguration windowService w);
          c1 = CreateUntitledWorkspace fs ra;
          p1 = createUntitledWorkspace workspacesService fs ra w
      in case fst p1 of
           Resolved newWorkspace \<Rightarrow>
             (let c2 = CopyWorkspaceSettings newWorkspace;
                  p2 = copyWorkspaceSettings workspaceEditingService newWorkspace (snd p1)
              in case fst p2 of
                   Resolved u \<Rightarrow>
                     (let us = [\<lparr>IURIToOpen.uri = configPath newWorkspace, typeHint = Some ''file''\<rparr>];
                          os = \<lparr>IOpenSettings.forceNewWindow = Some True\<rparr>;
                          p3 = openWindow windowService us os (snd p2)
                      in (fst p3, snd p3,
                          [Issued c1, Fulfilled c1, Issued c2, Fulfilled c2, Issued (OpenWindow us os)]
                            @ settled (OpenWindow us os) (fst p3)))
                 | Rejected e \<Rightarrow>
                     (Rejected e, snd p2, [Issued c1, Fulfilled c1, Issued c2, Failed c2 e])
                 | Pending \<Rightarrow> (Pending, snd p2, [Issued c1, Fulfilled c1, Issued c2]))
         | Rejected e \<Rightarrow> (Rejected e, snd p1, [Issued c1, Failed c1 e])
         | Pending \<Rightarrow> (Pending, snd p1, [Issued c1]))"
  by (simp add: DuplicateWorkspaceInNewWindowAction_run_def and_then_apply invoke_apply Let_def
      split: Promise.splits)

lemma settled_decompose: "settled c' r = pre @ Issued c # post \<longleftrightarrow> False"
  by (cases r) (simp_all add: Cons_eq_append_conv)

text \<open>
  C5. For every folder list and remote authority that the context and the window service
  give: wherever the events of the duplicate-workspace action hold an issued \<^verbatim>\<open>openWindow\<close>
  call, \<^verbatim>\<open>createUntitledWorkspace\<close> was fulfilled with a new workspace, the promise of
  \<^verbatim>\<open>copyWorkspaceSettings\<close> for that workspace is fulfilled and its fulfilment is among the
  events before the call, and the arguments of the call are the new workspace's
  \<open>configPath\<close> with the type hint \<^verbatim>\<open>'file'\<close> and options with \<^verbatim>\<open>forceNewWindow\<close> true.
  Conversely, when both promises are fulfilled, the calls are the creation, the copy and
  that \<^verbatim>\<open>openWindow\<close>, in this order, and the promise of the action and the state it
  leaves are those of the window service's \<^verbatim>\<open>openWindow\<close> on these arguments, applied in
  the state the copy has left. When the copy is rejected or stays pending, so does the
  action, in the state the copy has left and with the creation and the copy as its only
  calls; when the creation is rejected or stays pending, so does the action, in the state
  the creation has left and with the creation as its only call.
\<close>

theorem duplicate_copy_before_open:
  "let r = (DuplicateWorkspaceInNewWindowAction_run workspaceContextService
              workspaceEditingService windowService workspacesService w
              :: 'r Promise \<times> 'w \<times> 'd event list);
       fs = folders (getWorkspace workspaceContextService w);
       ra = remoteAuthority (getConfiguration windowService w);
       created = createUntitledWorkspace workspacesService fs ra w
   in (\<forall>pre us os post. events_of r = pre @ Issued (OpenWindow us os) # post \<longrightarrow>
         (\<exists>newWorkspace.
            fst created = Resolved newWorkspace
            \<and> fst (copyWorkspaceSettings workspaceEditingService newWorkspace (snd created)) =
                Resolved ()
            \<and> Fulfilled (CopyWorkspaceSettings newWorkspace) \<in> set pre
            \<and> us = [\<lparr>IURIToOpen.uri = configPath newWorkspace, typeHint = Some ''file''\<rparr>]
            \<and> os = \<lparr>IOpenSettings.forceNewWindow = Some True\<rparr>))
    \<and> (\<forall>newWorkspace.
          fst created = Resolved newWorkspace
          \<and> fst (copyWorkspaceSettings workspaceEditingService newWorkspace (snd created)) =
              Resolved () \<longrightarrow>
          calls_of r =
            [CreateUntitledWorkspace fs ra, CopyWorkspaceSettings newWorkspace,
             OpenWindow [\<lparr>IURIToOpen.uri = configPath newWorkspace, typeHint = Some ''file''\<rparr>]
               \<lparr>IOpenSettings.forceNewWindow = Some True\<rparr>]
          \<and> promise_of r =
            fst (openWindow windowService
              [\<lparr>IURIToOpen.uri = configPath newWorkspace, typeHint = Some ''file''\<rparr>]
              \<lparr>IOpenSettings.forceNewWindow = Some True\<rparr>
              (snd (copyWorkspaceSettings workspaceEditingService newWorkspace (snd created))))
          \<and> state_of r =
            snd (openWindow windowService
              [\<lparr>IURIToOpen.uri = configPath newWorkspace, typeHint = Some ''file''\<rparr>]
              \<lparr>IOpenSettings.forceNewWindow = Some True\<rparr>
              (snd (copyWorkspaceSettings workspaceEditingService newWorkspace (snd created)))))
    \<and> (\<forall>newWorkspace e.
          fst created = Resolved newWorkspace
          \<and> fst (copyWorkspaceSettings workspaceEditingService newWorkspace (snd created)) =
              Rejected e \<longrightarrow>
          calls_of r = [CreateUntitledWorkspace fs ra, CopyWorkspaceSettings newWorkspace]
          \<and> promise_of r = Rejected e
          \<and> state_of r =
            snd (copyWorkspaceSettings workspaceEditingService newWorkspace (snd created)))
    \<and> (\<forall>newWorkspace.
          fst created = Resolved newWorkspace
          \<and> fst (copyWorkspaceSettings workspaceEditingService newWorkspace (snd created)) =
              Pending \<longrightarrow>
          calls_of r = [CreateUntitledWorkspace fs ra, CopyWorkspaceSettings newWorkspace]
          \<and> promise_of r = Pending
          \<and> state_of r =
            snd (copyWorkspaceSettings workspaceEditingService newWorkspace (snd created)))
    \<and> (\<forall>e. fst created = Rejected e \<longrightarrow>
          calls_of r = [CreateUntitledWorkspace fs ra] \<and> promise_of r = Rejected e
          \<and> state_of r = snd created)
    \<and> (fst created = Pending \<longrightarrow>
          calls_of r = [CreateUntitledWorkspace fs ra] \<and> promise_of r = Pending
          \<and> state_of r = snd created)"
proof -
  let ?r = "DuplicateWorkspaceInNewWindowAction_run workspaceContextService
              workspaceEditingService windowService workspacesService w
              :: 'r Promise \<times> 'w \<times> 'd event list"
  let ?fs = "folders (getWorkspace workspaceContextService w)"
  let ?ra = "remoteAuthority (getConfiguration windowService w)"
  let ?created = "createUntitledWorkspace workspacesService ?fs ?ra w"
  let ?copied = "\<lambda>nw. copyWorkspaceSettings workspaceEditingService nw (snd ?created)"
  let ?us = "\<lambda>nw. [\<lparr>IURIToOpen.uri = configPath nw, typeHint = Some ''file''\<rparr>]"
  let ?os = "\<lparr>IOpenSettings.forceNewWindow = Some True\<rparr>"
  have opened:
    "\<exists>nw. fst ?created = Resolved nw \<and> fst (?copied nw) = Resolved ()
       \<and> Fulfilled (CopyWorkspaceSettings nw) \<in> set pre \<and> us = ?us nw \<and> os = ?os"
    if ev: "events_of ?r = pre @ Issued (OpenWindow us os) # post" for pre us os post
  proof (cases "fst ?created")
    case created: (Resolved nw)
    show ?thesis
    proof (cases "fst (?copied nw)")
      case (Resolved u)
      with created ev show ?thesis
        by (auto simp add: DuplicateWorkspaceInNewWindowAction_run_eq events_of_def Let_def
            Cons_eq_append_conv settled_decompose)
    next
      case (Rejected e)
      with created ev show ?thesis
        by (simp add: DuplicateWorkspaceInNewWindowAction_run_eq events_of_def Let_def
            Cons_eq_append_conv)
    next
      case Pending
      with created ev show ?thesis
        by (simp add: DuplicateWorkspaceInNewWindowAction_run_eq events_of_def Let_def
            Cons_eq_append_conv)
    qed
  next
    case (Rejected e)
    with ev show ?thesis
      by (simp add: DuplicateWorkspaceInNewWindowAction_run_eq events_of_def Let_def
          Cons_eq_append_conv)
  next
    case Pending
    with ev show ?thesis
      by (simp add: DuplicateWorkspaceInNewWindowAction_run_eq events_of_def Let_def
          Cons_eq_append_conv)
  qed
  have all_calls:
    "calls_of ?r = [CreateUntitledWorkspace ?fs ?ra, CopyWorkspaceSettings nw, OpenWindow (?us nw) ?os]
     \<and> promise_of ?r = fst (openWindow windowService (?us nw) ?os (snd (?copied nw)))
     \<and> state_of ?r = snd (openWindow windowService (?us nw) ?os (snd (?copied nw)))"
    if "fst ?created = Resolved nw" and "fst (?copied nw) = Resolved ()" for nw
    using that
    by (simp add: DuplicateWorkspaceInNewWindowAction_run_eq observe Let_def issued_settled)
  have copy_rejected:
    "calls_of ?r = [CreateUntitledWorkspace ?fs ?ra, CopyWorkspaceSettings nw]
     \<and> promise_of ?r = Rejected e \<and> state_of ?r = snd (?copied nw)"
    if "fst ?created = Resolved nw" and "fst (?copied nw) = Rejected e" for nw e
    using that by (simp add: DuplicateWorkspaceInNewWindowAction_run_eq observe Let_def)
  have copy_pending:
    "calls_of ?r = [CreateUntitledWorkspace ?fs ?ra, CopyWorkspaceSettings nw]
     \<and> promise_of ?r = Pending \<and> state_of ?r = snd (?copied nw)"
    if "fst ?created = Resolved nw" and "fst (?copied nw) = Pending" for nw
    using that by (simp add: DuplicateWorkspaceInNewWindowAction_run_eq observe Let_def)
  have create_rejected:
    "calls_of ?r = [CreateUntitledWorkspace ?fs ?ra] \<and> promise_of ?r = Rejected e
     \<and> state_of ?r = snd ?created"
    if "fst ?created = Rejected e" for e
    using that by (simp add: DuplicateWorkspaceInNewWindowAction_run_eq observe Let_def)
  have create_pending:
    "calls_of ?r = [CreateUntitledWorkspace ?fs ?ra] \<and> promise_of ?r = Pending
     \<and> state_of ?r = snd ?created"
    if "fst ?created = Pending"
    using that by (simp add: DuplicateWorkspaceInNewWindowAction_run_eq observe Let_def)
  show ?thesis
    unfolding Let_def
    using opened all_calls copy_rejected copy_pending create_rejected create_pending by blast
qed

lemma sample_duplicate:
  "folders (getWorkspace sample_contextService workspace_world) =
     [sample_folder ''app'' 0, sample_folder ''lib'' 1]"
  "remoteAuthority (getConfiguration sample_windowService w) = None"
  "createUntitledWorkspace sample_workspacesService fs ra w =
     (Resolved \<lparr>workspace_id = ''1'', configPath = ''file:///tmp/1/workspace.json''\<rparr>, w)"
  "copyWorkspaceSettings (sample_workspaceEditingService p q) nw w = (q, w)"
  "openWindow sample_windowService us os w = (Resolved (), w)"
  by (simp_all add: sample_contextService_def workspace_world_def sample_windowService_def
      sample_workspacesService_def sample_workspaceEditingService_def)

theorem duplicate_copy_before_open_witness:
  "let r = (DuplicateWorkspaceInNewWindowAction_run sample_contextService
              (sample_workspaceEditingService None (Resolved ())) sample_windowService
              sample_workspacesService workspace_world
              :: unit Promise \<times> sample_world \<times> unit event list);
       fs = [sample_folder ''app'' 0, sample_folder ''lib'' 1];
       nw = \<lparr>workspace_id = ''1'', configPath = ''file:///tmp/1/workspace.json''\<rparr>;
       us = [\<lparr>IURIToOpen.uri = ''file:///tmp/1/workspace.json'', typeHint = Some ''file''\<rparr>];
       os = \<lparr>IOpenSettings.forceNewWindow = Some True\<rparr>;
       pre = [Issued (CreateUntitledWorkspace fs None), Fulfilled (CreateUntitledWorkspace fs None),
              Issued (CopyWorkspaceSettings nw), Fulfilled (CopyWorkspaceSettings nw)];
       r' = (DuplicateWorkspaceInNewWindowAction_run sample_contextService
              (sample_workspaceEditingService None (Rejected (Error ''EACCES'')))
              sample_windowService sample_workspacesService workspace_world
              :: unit Promise \<times> sample_world \<times> unit event list)
   in events_of r = pre @ Issued (OpenWindow us os) # [Fulfilled (OpenWindow us os)]
    \<and> Fulfilled (CopyWorkspaceSettings nw) \<in> set pre
    \<and> fst (createUntitledWorkspace sample_workspacesService fs None workspace_world) = Resolved nw
    \<and> fst (copyWorkspaceSettings (sample_workspaceEditingService None (Resolved ())) nw
          workspace_world) = Resolved ()
    \<and> calls_of r =
        [CreateUntitledWorkspace fs None, CopyWorkspaceSettings nw, OpenWindow us os]
    \<and> promise_of r = Resolved ()
    \<and> state_of r = workspace_world
    \<and> fst (copyWorkspaceSettings
          (sample_workspaceEditingService None (Rejected (Error ''EACCES''))) nw
          workspace_world) = Rejected (Error ''EACCES'')
    \<and> calls_of r' = [CreateUntitledWorkspace fs None, CopyWorkspaceSettings nw]
    \<and> promise_of r' = Rejected (Error ''EACCES'')
    \<and> state_of r' = workspace_world"
proof -
  let ?r = "DuplicateWorkspaceInNewWindowAction_run sample_contextService
              (sample_workspaceEditingService None (Resolved ())) sample_windowService
              sample_workspacesService workspace_world
              :: unit Promise \<times> sample_world \<times> unit event list"
  let ?fs = "[sample_folder ''app'' 0, sample_folder ''lib'' 1]"
  let ?nw = "\<lparr>workspace_id = ''1'', configPath = ''file:///tmp/1/workspace.json''\<rparr>"
  let ?us = "[\<lparr>IURIToOpen.uri = ''file:///tmp/1/workspace.json'', typeHint = Some ''file''\<rparr>]"
  let ?os = "\<lparr>IOpenSettings.forceNewWindow = Some True\<rparr>"
  let ?pre = "[Issued (CreateUntitledWorkspace ?fs None), Fulfilled (CreateUntitledWorkspace ?fs None),
               Issued (CopyWorkspaceSettings ?nw), Fulfilled (CopyWorkspaceSettings ?nw)]
              :: unit event list"
  have ev: "events_of ?r = ?pre @ Issued (OpenWindow ?us ?os) # [Fulfilled (OpenWindow ?us ?os)]"
    by (simp add: DuplicateWorkspaceInNewWindowAction_run_eq events_of_def Let_def
        sample_duplicate)
  note inst = duplicate_copy_before_open [where workspaceContextService = sample_contextService
      and workspaceEditingService = "sample_workspaceEditingService None (Resolved ())"
      and windowService = sample_windowService and workspacesService = sample_workspacesService
      and w = workspace_world, where ?'d = unit, unfolded Let_def]
  from inst ev have "\<exists>newWorkspace.
      fst (createUntitledWorkspace sample_workspacesService
            (folders (getWorkspace sample_contextService workspace_world))
            (remoteAuthority (getConfiguration sample_windowService workspace_world))
            workspace_world) = Resolved newWorkspace
      \<and> fst (copyWorkspaceSettings (sample_workspaceEditingService None (Resolved ())) newWorkspace
            (snd (createUntitledWorkspace sample_workspacesService
              (folders (getWorkspace sample_contextService workspace_world))
              (remoteAuthority (getConfiguration sample_windowService workspace_world))
              workspace_world))) = Resolved ()
      \<and> Fulfilled (CopyWorkspaceSettings newWorkspace) \<in> set ?pre
      \<and> ?us = [\<lparr>IURIToOpen.uri = configPath newWorkspace, typeHint = Some ''file''\<rparr>]
      \<and> ?os = \<lparr>IOpenSettings.forceNewWindow = Some True\<rparr>"
    by blast
  then have before: "Fulfilled (CopyWorkspaceSettings ?nw) \<in> set ?pre"
    by (simp add: sample_duplicate)
  from inst have fulfilled: "calls_of ?r =
      [CreateUntitledWorkspace ?fs None, CopyWorkspaceSettings ?nw, OpenWindow ?us ?os]
      \<and> promise_of ?r = Resolved () \<and> state_of ?r = workspace_world"
    by (simp add: sample_duplicate)
  let ?r' = "DuplicateWorkspaceInNewWindowAction_run sample_contextService
              (sample_workspaceEditingService None (Rejected (Error ''EACCES'')))
              sample_windowService sample_workspacesService workspace_world
              :: unit Promise \<times> sample_world \<times> unit event list"
  have rejected: "calls_of ?r' = [CreateUntitledWorkspace ?fs None, CopyWorkspaceSettings ?nw]
      \<and> promise_of ?r' = Rejected (Error ''EACCES'') \<and> state_of ?r' = workspace_world"
    using duplicate_copy_before_open [where workspaceContextService = sample_contextService
      and workspaceEditingService =
        "sample_workspaceEditingService None (Rejected (Error ''EACCES''))"
      and windowService = sample_windowService and workspacesService = sample_workspacesService
      and w = workspace_world, where ?'d = unit, unfolded Let_def]
    by (simp add: sample_duplicate)
  from ev before fulfilled rejected show ?thesis
    by (simp add: Let_def sample_duplicate)
qed

end
